theory Spec2Isabelle
  imports Main
begin

section \<open>Host objects as the module sees them\<close>

text \<open>
  The module \<^verbatim>\<open>interfaced\<close> inspects classes through the host's reflection
  (\<^verbatim>\<open>dir\<close>, \<^verbatim>\<open>getattr\<close>, \<^verbatim>\<open>inspect.signature\<close>, \<^verbatim>\<open>callable\<close>,
  \<^verbatim>\<open>isinstance(_, property)\<close>, \<^verbatim>\<open>hasattr\<close>). A member object is modelled by
  exactly what those calls answer about it.

  \<^item> \<open>'s\<close> is the type of \<^verbatim>\<open>inspect.Signature\<close> values; HOL equality on \<open>'s\<close>
    stands for \<^verbatim>\<open>Signature.__eq__\<close>.
  \<^item> \<open>'v\<close> is the type of all other (non-callable, non-property) attribute values;
    HOL equality on \<open>'v\<close> stands for the host's \<^verbatim>\<open>==\<close> on them.
\<close>

datatype error = TypeError | ValueError | AttributeError

datatype ('s, 'v) pyobj =
    PyNone
    \<comment> \<open>\<^verbatim>\<open>None\<close>, in particular the \<^verbatim>\<open>fset\<close>/\<^verbatim>\<open>fdel\<close> of a property without setter/deleter\<close>
  | Callable "error + 's" bool
    \<comment> \<open>a callable: what \<^verbatim>\<open>inspect.signature\<close> gives for it (a signature, or the
        exception raised for a callable without one), and whether it carries the
        attribute \<^verbatim>\<open>__defaultmethod__\<close>\<close>
  | Property (fget: "('s, 'v) pyobj") (fset: "('s, 'v) pyobj") (fdel: "('s, 'v) pyobj")
    \<comment> \<open>a \<^verbatim>\<open>property\<close> object with its attributes \<^verbatim>\<open>fget\<close>, \<^verbatim>\<open>fset\<close>, \<^verbatim>\<open>fdel\<close>
        (\<^verbatim>\<open>None\<close> where the property has no such accessor)\<close>
  | Value 'v bool
    \<comment> \<open>any other object, and whether it carries \<^verbatim>\<open>__defaultmethod__\<close>\<close>

text \<open>\<^verbatim>\<open>inspect.signature(obj)\<close>: raises \<^verbatim>\<open>TypeError\<close> on what is not callable.\<close>

fun signature :: "('s, 'v) pyobj \<Rightarrow> error + 's" where
  "signature (Callable r t) = r"
| "signature PyNone = Inl TypeError"
| "signature (Property g s d) = Inl TypeError"
| "signature (Value v t) = Inl TypeError"

fun callable :: "('s, 'v) pyobj \<Rightarrow> bool" where
  "callable (Callable r t) = True"
| "callable PyNone = False"
| "callable (Property g s d) = False"
| "callable (Value v t) = False"

text \<open>\<^verbatim>\<open>isinstance(obj, property)\<close>\<close>

fun isinstance_property :: "('s, 'v) pyobj \<Rightarrow> bool" where
  "isinstance_property (Property g s d) = True"
| "isinstance_property PyNone = False"
| "isinstance_property (Callable r t) = False"
| "isinstance_property (Value v t) = False"

text \<open>\<^verbatim>\<open>hasattr(obj, "__defaultmethod__")\<close>; \<^verbatim>\<open>None\<close> and \<^verbatim>\<open>property\<close> objects
  accept no new attributes.\<close>

fun hasattr_defaultmethod :: "('s, 'v) pyobj \<Rightarrow> bool" where
  "hasattr_defaultmethod (Callable r t) = t"
| "hasattr_defaultmethod (Value v t) = t"
| "hasattr_defaultmethod PyNone = False"
| "hasattr_defaultmethod (Property g s d) = False"

text \<open>
  The decorator \<^verbatim>\<open>default\<close> runs when the class body is executed, before any check:
  it sets \<^verbatim>\<open>func.__defaultmethod__ = True\<close> and returns \<^verbatim>\<open>func\<close>. The checks see only
  its effect, the attribute that \<^verbatim>\<open>hasattr\<close> finds; a member object carries that as its
  flag, and the decorator has no definition of its own here.
\<close>

text \<open>
  A class, as the module reads it: the identity of the type object, the identities
  of its \<^verbatim>\<open>__bases__\<close>, and the pairs \<^verbatim>\<open>(i, getattr(cls, i))\<close> for \<^verbatim>\<open>i\<close> in
  \<^verbatim>\<open>dir(cls)\<close>, in the order of \<^verbatim>\<open>dir\<close> (inherited attributes included, as
  \<^verbatim>\<open>dir\<close> lists them).
\<close>

record ('s, 'v) pyclass =
  cls_id :: nat
  cls_bases :: "nat list"
  cls_dir :: "(string \<times> ('s, 'v) pyobj) list"

section \<open>Helpers of the module\<close>

text \<open>\<^verbatim>\<open>methodname.startswith('__') and methodname.endswith('__')\<close>\<close>

definition is_dunder :: "string \<Rightarrow> bool" where
  "is_dunder methodname \<longleftrightarrow>
     take 2 methodname = ''__'' \<and> drop (length methodname - 2) methodname = ''__''"

text \<open>\<^verbatim>\<open>[getattr(cls, i) for i in dir(cls) if not is_dunder(i)]\<close>: the names are dropped.\<close>

definition get_non_dunder_attrs :: "('s, 'v) pyclass \<Rightarrow> ('s, 'v) pyobj list" where
  "get_non_dunder_attrs c = map snd (filter (\<lambda>(i, obj). \<not> is_dunder i) (cls_dir c))"

section \<open>Signature descriptors\<close>

text \<open>
  What \<^verbatim>\<open>universal_signature\<close> returns: an \<^verbatim>\<open>inspect.Signature\<close>, a
  \<^verbatim>\<open>PropertySignature\<close> object, or the object itself. A \<^verbatim>\<open>PropertySignature\<close> is
  a heap object of a class that defines no \<^verbatim>\<open>__eq__\<close>; it carries the identity it
  was allocated with, next to its fields \<^verbatim>\<open>property\<close>, \<^verbatim>\<open>fget\<close>, \<^verbatim>\<open>fset\<close>,
  \<^verbatim>\<open>fdel\<close>.
\<close>

datatype ('s, 'v) descriptor =
    InspectSignature 's
  | PropertySignature nat "('s, 'v) pyobj" 's 's 's
  | Itself "('s, 'v) pyobj"

text \<open>
  The host's \<^verbatim>\<open>==\<close> between two descriptors: \<^verbatim>\<open>Signature.__eq__\<close> between
  signatures, object identity between \<^verbatim>\<open>PropertySignature\<close> objects (the default
  \<^verbatim>\<open>object.__eq__\<close>), value equality between plain objects, and \<^verbatim>\<open>False\<close>
  between descriptors of different kinds.
\<close>

fun descriptor_eq :: "('s, 'v) descriptor \<Rightarrow> ('s, 'v) descriptor \<Rightarrow> bool" where
  "descriptor_eq (InspectSignature a) (InspectSignature b) = (a = b)"
| "descriptor_eq (PropertySignature i p g s d) (PropertySignature j p' g' s' d') = (i = j)"
| "descriptor_eq (Itself x) (Itself y) = (x = y)"
| "descriptor_eq (InspectSignature a) (PropertySignature j p' g' s' d') = False"
| "descriptor_eq (InspectSignature a) (Itself y) = False"
| "descriptor_eq (PropertySignature i p g s d) (InspectSignature b) = False"
| "descriptor_eq (PropertySignature i p g s d) (Itself y) = False"
| "descriptor_eq (Itself x) (InspectSignature b) = False"
| "descriptor_eq (Itself x) (PropertySignature j p' g' s' d') = False"

text \<open>\<^verbatim>\<open>sig in signatures\<close>: some element is the same object or equal.\<close>

fun descriptor_in :: "('s, 'v) descriptor \<Rightarrow> ('s, 'v) descriptor list \<Rightarrow> bool" where
  "descriptor_in x [] = False"
| "descriptor_in x (y # ys) = (if descriptor_eq x y then True else descriptor_in x ys)"

text \<open>
  \<^verbatim>\<open>isig in interface.default_attrs\<close>: a descriptor looked up in a list of
  attribute objects. A signature or a \<^verbatim>\<open>PropertySignature\<close> equals no attribute
  object; a plain object equals the attribute that is the same value.
\<close>

fun descriptor_eq_attr :: "('s, 'v) descriptor \<Rightarrow> ('s, 'v) pyobj \<Rightarrow> bool" where
  "descriptor_eq_attr (Itself x) obj = (x = obj)"
| "descriptor_eq_attr (InspectSignature a) obj = False"
| "descriptor_eq_attr (PropertySignature i p g s d) obj = False"

fun descriptor_in_attrs :: "('s, 'v) descriptor \<Rightarrow> ('s, 'v) pyobj list \<Rightarrow> bool" where
  "descriptor_in_attrs x [] = False"
| "descriptor_in_attrs x (obj # objs) =
     (if descriptor_eq_attr x obj then True else descriptor_in_attrs x objs)"

text \<open>
  \<^verbatim>\<open>PropertySignature.__init__\<close>: three calls of \<^verbatim>\<open>inspect.signature\<close>, in the
  order getter, setter, deleter; the first that raises ends the construction. The
  state \<open>h\<close> is the next free object identity.
\<close>

definition PropertySignature_init ::
  "('s, 'v) pyobj \<Rightarrow> nat \<Rightarrow> error + ('s, 'v) descriptor \<times> nat" where
  "PropertySignature_init target h =
     (case signature (fget target) of Inl e \<Rightarrow> Inl e | Inr sg \<Rightarrow>
       (case signature (fset target) of Inl e \<Rightarrow> Inl e | Inr ss \<Rightarrow>
         (case signature (fdel target) of Inl e \<Rightarrow> Inl e | Inr sd \<Rightarrow>
            Inr (PropertySignature h target sg ss sd, Suc h))))"

definition universal_signature ::
  "('s, 'v) pyobj \<Rightarrow> nat \<Rightarrow> error + ('s, 'v) descriptor \<times> nat" where
  "universal_signature obj h =
     (if isinstance_property obj then PropertySignature_init obj h
      else if callable obj then
        (case signature obj of Inl e \<Rightarrow> Inl e | Inr sg \<Rightarrow> Inr (InspectSignature sg, h))
      else Inr (Itself obj, h))"

section \<open>Class signatures\<close>

record ('s, 'v) ClassSignature =
  cls :: "('s, 'v) pyclass"
  attrs :: "('s, 'v) pyobj list"
  signatures :: "('s, 'v) descriptor list"
  default_attrs :: "('s, 'v) pyobj list"

text \<open>\<^verbatim>\<open>[universal_signature(i) for i in self.attrs]\<close>\<close>

fun universal_signatures ::
  "('s, 'v) pyobj list \<Rightarrow> nat \<Rightarrow> error + ('s, 'v) descriptor list \<times> nat" where
  "universal_signatures [] h = Inr ([], h)"
| "universal_signatures (i # rest) h =
     (case universal_signature i h of Inl e \<Rightarrow> Inl e | Inr (d, h1) \<Rightarrow>
       (case universal_signatures rest h1 of Inl e \<Rightarrow> Inl e | Inr (ds, h2) \<Rightarrow>
          Inr (d # ds, h2)))"

definition ClassSignature_init ::
  "('s, 'v) pyclass \<Rightarrow> nat \<Rightarrow> error + ('s, 'v) ClassSignature \<times> nat" where
  "ClassSignature_init c h =
     (case universal_signatures (get_non_dunder_attrs c) h of Inl e \<Rightarrow> Inl e
      | Inr (ds, h1) \<Rightarrow>
          Inr (\<lparr>cls = c, attrs = get_non_dunder_attrs c, signatures = ds,
                default_attrs = filter hasattr_defaultmethod (get_non_dunder_attrs c)\<rparr>, h1))"

text \<open>
  The methods take \<^verbatim>\<open>ClassSignature | type\<close>; each starts with
  \<^verbatim>\<open>if isinstance(target, type) : target = ClassSignature(target)\<close>.
\<close>

datatype ('s, 'v) target = Type "('s, 'v) pyclass" | Sig "('s, 'v) ClassSignature"

fun as_ClassSignature ::
  "('s, 'v) target \<Rightarrow> nat \<Rightarrow> error + ('s, 'v) ClassSignature \<times> nat" where
  "as_ClassSignature (Type c) h = ClassSignature_init c h"
| "as_ClassSignature (Sig s) h = Inr (s, h)"

text \<open>Python's list \<^verbatim>\<open>==\<close>: same length and pairwise equal.\<close>

fun signatures_eq :: "('s, 'v) descriptor list \<Rightarrow> ('s, 'v) descriptor list \<Rightarrow> bool" where
  "signatures_eq [] [] = True"
| "signatures_eq (x # xs) (y # ys) = (descriptor_eq x y \<and> signatures_eq xs ys)"
| "signatures_eq [] (y # ys) = False"
| "signatures_eq (x # xs) [] = False"

definition equals ::
  "('s, 'v) ClassSignature \<Rightarrow> ('s, 'v) target \<Rightarrow> nat \<Rightarrow> error + bool \<times> nat" where
  "equals self t h =
     (case as_ClassSignature t h of Inl e \<Rightarrow> Inl e
      | Inr (t', h1) \<Rightarrow> Inr (signatures_eq (signatures self) (signatures t'), h1))"

text \<open>\<^verbatim>\<open>target.cls in self.cls.__bases__\<close>: type objects compare by identity.\<close>

definition bases_m ::
  "('s, 'v) ClassSignature \<Rightarrow> ('s, 'v) target \<Rightarrow> nat \<Rightarrow> error + bool \<times> nat" where
  "bases_m self t h =
     (case as_ClassSignature t h of Inl e \<Rightarrow> Inl e
      | Inr (t', h1) \<Rightarrow> Inr (cls_id (cls t') \<in> set (cls_bases (cls self)), h1))"

text \<open>The loop of \<^verbatim>\<open>contains\<close>.\<close>

fun contains_loop ::
  "('s, 'v) descriptor list \<Rightarrow> ('s, 'v) ClassSignature \<Rightarrow> bool" where
  "contains_loop [] self = True"
| "contains_loop (sig # rest) self =
     (if \<not> descriptor_in sig (signatures self) then False else contains_loop rest self)"

definition contains ::
  "('s, 'v) ClassSignature \<Rightarrow> ('s, 'v) target \<Rightarrow> nat \<Rightarrow> error + bool \<times> nat" where
  "contains self t h =
     (case as_ClassSignature t h of Inl e \<Rightarrow> Inl e
      | Inr (c, h1) \<Rightarrow> Inr (contains_loop (signatures c) self, h1))"

text \<open>The loop of \<^verbatim>\<open>implements\<close>, taken when \<^verbatim>\<open>self.bases(interface)\<close>.\<close>

fun implements_loop ::
  "('s, 'v) descriptor list \<Rightarrow> ('s, 'v) ClassSignature \<Rightarrow> ('s, 'v) ClassSignature \<Rightarrow> bool" where
  "implements_loop [] self interface = True"
| "implements_loop (isig # rest) self interface =
     (if \<not> descriptor_in isig (signatures self)
         \<and> \<not> descriptor_in_attrs isig (default_attrs interface)
      then False else implements_loop rest self interface)"

definition implements ::
  "('s, 'v) ClassSignature \<Rightarrow> ('s, 'v) target \<Rightarrow> nat \<Rightarrow> error + bool \<times> nat" where
  "implements self t h =
     (case as_ClassSignature t h of Inl e \<Rightarrow> Inl e
      | Inr (interface, h1) \<Rightarrow>
          (case bases_m self (Sig interface) h1 of Inl e \<Rightarrow> Inl e
           | Inr (b, h2) \<Rightarrow>
               if \<not> b then contains self (Sig interface) h2
               else Inr (implements_loop (signatures interface) self interface, h2)))"

text \<open>The module-level \<^verbatim>\<open>bases(cls, parent)\<close>.\<close>

definition bases ::
  "('s, 'v) pyclass \<Rightarrow> ('s, 'v) pyclass \<Rightarrow> nat \<Rightarrow> error + bool \<times> nat" where
  "bases c parent h =
     (case ClassSignature_init c h of Inl e \<Rightarrow> Inl e
      | Inr (s, h1) \<Rightarrow> bases_m s (Type parent) h1)"

section \<open>The metaclass\<close>

text \<open>
  \<^verbatim>\<open>super(cls).__subclasscheck__(subclass)\<close>: the one-argument \<^verbatim>\<open>super(cls)\<close> is an
  unbound \<^verbatim>\<open>super\<close> object; attribute access on it does not search the parents of
  \<^verbatim>\<open>cls\<close> but the \<^verbatim>\<open>super\<close> object itself, which has no \<^verbatim>\<open>__subclasscheck__\<close>,
  so the host raises \<^verbatim>\<open>AttributeError\<close> before anything is called.
\<close>

definition super_subclasscheck ::
  "('s, 'v) pyclass \<Rightarrow> ('s, 'v) pyclass \<Rightarrow> error + bool \<times> nat" where
  "super_subclasscheck c subclass = Inl AttributeError"

text \<open>\<^verbatim>\<open>Interface.__subclasscheck__\<close>, what \<^verbatim>\<open>issubclass(subclass, cls)\<close> runs.\<close>

definition subclasscheck ::
  "('s, 'v) pyclass \<Rightarrow> ('s, 'v) pyclass \<Rightarrow> nat \<Rightarrow> error + bool \<times> nat" where
  "subclasscheck c subclass h =
     (if length (cls_bases c) \<noteq> 1 then super_subclasscheck c subclass
      else case ClassSignature_init subclass h of Inl e \<Rightarrow> Inl e
           | Inr (s, h1) \<Rightarrow> implements s (Type c) h1)"

text \<open>
  \<^verbatim>\<open>Interface.__new__(cls, name, bases, dct)\<close>. The namespace \<^verbatim>\<open>dct\<close> maps a name
  to an object of the class body (of any type \<open>'o\<close>) or to the closure
  \<^verbatim>\<open>default_initializer\<close> that \<^verbatim>\<open>__new__\<close> creates. \<^verbatim>\<open>type.__new__\<close> builds the
  type object from name, bases and namespace.
\<close>

datatype 'o attribute = default_initializer | Declared 'o

record 'o type_object =
  type_name :: string
  type_bases :: "nat list"
  type_dict :: "string \<rightharpoonup> 'o attribute"

definition type_new :: "string \<Rightarrow> nat list \<Rightarrow> (string \<rightharpoonup> 'o attribute) \<Rightarrow> 'o type_object" where
  "type_new name bs dct = \<lparr>type_name = name, type_bases = bs, type_dict = dct\<rparr>"

definition Interface_new ::
  "string \<Rightarrow> nat list \<Rightarrow> (string \<rightharpoonup> 'o attribute) \<Rightarrow> 'o type_object" where
  "Interface_new name bs dct =
     type_new name bs
       (if ''__init__'' \<notin> dom dct then dct(''__init__'' \<mapsto> default_initializer) else dct)"

text \<open>
  Calling the class, for a class that keeps the host's \<^verbatim>\<open>__new__\<close>: the host
  allocates the instance and calls the \<^verbatim>\<open>__init__\<close> it finds, the class's own
  namespace first. \<^verbatim>\<open>default_initializer(*args, **kwargs)\<close> raises \<^verbatim>\<open>TypeError\<close>
  whatever the arguments. How the host runs an initializer written by the user is the
  parameter \<open>call\<close>: \<open>call (Some f) args\<close> for \<open>f\<close> declared in the class body,
  \<open>call None args\<close> for the one found through the bases when the namespace has none.
\<close>

definition instantiate ::
  "('o option \<Rightarrow> 'a \<Rightarrow> error + unit) \<Rightarrow> 'o type_object \<Rightarrow> 'a \<Rightarrow> error + unit" where
  "instantiate call c args =
     (case type_dict c ''__init__'' of
        None \<Rightarrow> call None args
      | Some default_initializer \<Rightarrow> Inl TypeError
      | Some (Declared f) \<Rightarrow> call (Some f) args)"

section \<open>Example classes\<close>

text \<open>
  The classes of the repository's \<^verbatim>\<open>tests.py\<close>, as reflection shows them: signatures
  are written as \<^verbatim>\<open>inspect\<close> prints them, \<^verbatim>\<open>object\<close> has identity \<open>0\<close>, and of
  the special names only \<^verbatim>\<open>__init__\<close> is listed (all are filtered out alike).
  \<^verbatim>\<open>TestA\<close> does not override \<^verbatim>\<open>baz\<close>: \<^verbatim>\<open>getattr\<close> gives it the function of
  \<^verbatim>\<open>TestInterface\<close>, tag included.
\<close>

definition TestInterface :: "(string, nat) pyclass" where
  "TestInterface = \<lparr>cls_id = 1, cls_bases = [0], cls_dir =
     [(''__init__'', Callable (Inr ''(*args, **kwargs)'') False),
      (''bar'', Callable (Inr ''(self, a: int) -> Self'') False),
      (''baz'', Callable (Inr ''(self, a: int) -> Self'') True),
      (''foo'', Callable (Inr ''(self, a: int) -> TestInterface'') False)]\<rparr>"

definition TestA :: "(string, nat) pyclass" where
  "TestA = \<lparr>cls_id = 2, cls_bases = [1], cls_dir =
     [(''__init__'', Callable (Inr ''(*args, **kwargs)'') False),
      (''bar'', Callable (Inr ''(self, a: int) -> Self'') False),
      (''baz'', Callable (Inr ''(self, a: int) -> Self'') True),
      (''foo'', Callable (Inr ''(self, a: int) -> TestInterface'') False)]\<rparr>"

text \<open>The namespaces of the class bodies of \<^verbatim>\<open>TestInterface\<close> and \<^verbatim>\<open>TestA\<close>, as
  the metaclass receives them.\<close>

definition TestInterface_dct :: "string \<rightharpoonup> (string, nat) pyobj attribute" where
  "TestInterface_dct =
     [''foo'' \<mapsto> Declared (Callable (Inr ''(self, a: int) -> TestInterface'') False),
      ''bar'' \<mapsto> Declared (Callable (Inr ''(self, a: int) -> Self'') False),
      ''baz'' \<mapsto> Declared (Callable (Inr ''(self, a: int) -> Self'') True)]"

definition TestA_dct :: "string \<rightharpoonup> (string, nat) pyobj attribute" where
  "TestA_dct = [''foo'' \<mapsto> Declared (Callable (Inr ''(self, a: int) -> TestInterface'') False),
                ''bar'' \<mapsto> Declared (Callable (Inr ''(self, a: int) -> Self'') False)]"

definition TestB :: "(string, nat) pyclass" where
  "TestB = \<lparr>cls_id = 3, cls_bases = [1], cls_dir =
     [(''__init__'', Callable (Inr ''(*args, **kwargs)'') False),
      (''bar'', Callable (Inr ''(self, a: int) -> Self'') False),
      (''baz'', Callable (Inr ''(self, a: int) -> Self'') True),
      (''foo'', Callable (Inr ''(self, a: int) -> TestB'') False)]\<rparr>"

definition TestD :: "(string, nat) pyclass" where
  "TestD = \<lparr>cls_id = 5, cls_bases = [1], cls_dir =
     [(''__init__'', Callable (Inr ''(*args, **kwargs)'') False),
      (''bar'', Callable (Inr ''(self, a: int) -> Self'') False),
      (''baz'', Callable (Inr ''(self, a: int) -> Self'') False),
      (''foo'', Callable (Inr ''(self, a: int) -> TestInterface'') False)]\<rparr>"

definition TestE :: "(string, nat) pyclass" where
  "TestE = \<lparr>cls_id = 6, cls_bases = [0], cls_dir =
     [(''__init__'', Callable (Inr ''(self, /, *args, **kwargs)'') False),
      (''bar'', Callable (Inr ''(self, a: int) -> Self'') False),
      (''baz'', Callable (Inr ''(self, a: int) -> Self'') False),
      (''foo'', Callable (Inr ''(self, a: int) -> TestInterface'') False)]\<rparr>"




text \<open>
  An interface with one required and one default member, and a class that declares it as
  its parent, overrides the required member with the same signature and the default one
  with another signature:
  \<^verbatim>\<open>
  class Shape (metaclass=Interface) :
      def area (self) -> float : pass
      @default
      def describe (self) -> str : return "a shape"

  class Circle (Shape) :
      def __init__ (self, r : float) : self.r = r
      def area (self) -> float : return 3.14159 * self.r ** 2
      def describe (self, verbose : bool) -> str : return "a circle"
  \<close>
\<close>

definition Shape :: "(string, nat) pyclass" where
  "Shape = \<lparr>cls_id = 10, cls_bases = [0], cls_dir =
     [(''__init__'', Callable (Inr ''(*args, **kwargs)'') False),
      (''area'', Callable (Inr ''(self) -> float'') False),
      (''describe'', Callable (Inr ''(self) -> str'') True)]\<rparr>"

definition Circle :: "(string, nat) pyclass" where
  "Circle = \<lparr>cls_id = 11, cls_bases = [10], cls_dir =
     [(''__init__'', Callable (Inr ''(self, r: float)'') False),
      (''area'', Callable (Inr ''(self) -> float'') False),
      (''describe'', Callable (Inr ''(self, verbose: bool) -> str'') False)]\<rparr>"

text \<open>Two classes with one method each, of the same signature under different names, and
  what \<^verbatim>\<open>ClassSignature\<close> builds for them.\<close>

definition HasFoo :: "(string, nat) pyclass" where
  "HasFoo = \<lparr>cls_id = 20, cls_bases = [0], cls_dir =
     [(''foo'', Callable (Inr ''(self, a: int) -> int'') False)]\<rparr>"

definition HasBar :: "(string, nat) pyclass" where
  "HasBar = \<lparr>cls_id = 21, cls_bases = [0], cls_dir =
     [(''bar'', Callable (Inr ''(self, a: int) -> int'') False)]\<rparr>"

definition HasFoo_sig :: "(string, nat) ClassSignature" where
  "HasFoo_sig = \<lparr>cls = HasFoo, attrs = [Callable (Inr ''(self, a: int) -> int'') False],
     signatures = [InspectSignature ''(self, a: int) -> int''], default_attrs = []\<rparr>"

definition HasBar_sig :: "(string, nat) ClassSignature" where
  "HasBar_sig = \<lparr>cls = HasBar, attrs = [Callable (Inr ''(self, a: int) -> int'') False],
     signatures = [InspectSignature ''(self, a: int) -> int''], default_attrs = []\<rparr>"




text \<open>
  A property with getter, setter and deleter, an interface that declares it, a class that
  defines a property of the same three signatures, and a class whose property has a getter
  only:
  \<^verbatim>\<open>
  class Thermometer (metaclass=Interface) :
      @property
      def temperature (self) -> float : pass
      @temperature.setter
      def temperature (self, value : float) -> None : pass
      @temperature.deleter
      def temperature (self) -> None : pass

  class ReadOnly :
      @property
      def temperature (self) -> float : return 20.0
  \<close>
\<close>

definition temperature :: "(string, nat) pyobj" where
  "temperature = Property (Callable (Inr ''(self) -> float'') False)
                          (Callable (Inr ''(self, value: float) -> None'') False)
                          (Callable (Inr ''(self) -> None'') False)"

definition Thermometer :: "(string, nat) pyclass" where
  "Thermometer = \<lparr>cls_id = 40, cls_bases = [0], cls_dir =
     [(''__init__'', Callable (Inr ''(*args, **kwargs)'') False),
      (''temperature'', temperature)]\<rparr>"

definition Probe :: "(string, nat) pyclass" where
  "Probe = \<lparr>cls_id = 41, cls_bases = [0], cls_dir =
     [(''__init__'', Callable (Inr ''(self, /, *args, **kwargs)'') False),
      (''temperature'', temperature)]\<rparr>"

definition ReadOnly :: "(string, nat) pyclass" where
  "ReadOnly = \<lparr>cls_id = 42, cls_bases = [0], cls_dir =
     [(''__init__'', Callable (Inr ''(self, /, *args, **kwargs)'') False),
      (''temperature'', Property (Callable (Inr ''(self) -> float'') False) PyNone PyNone)]\<rparr>"

text \<open>\<^verbatim>\<open>ClassSignature(Probe)\<close>, built when the next free object identity is \<open>i\<close>.\<close>

definition Probe_sig :: "nat \<Rightarrow> (string, nat) ClassSignature" where
  "Probe_sig i = \<lparr>cls = Probe, attrs = [temperature],
     signatures = [PropertySignature i temperature ''(self) -> float''
                     ''(self, value: float) -> None'' ''(self) -> None''],
     default_attrs = []\<rparr>"

text \<open>
  An interface that defines its own initializer, so that it can be constructed, and has the
  same property: the namespace of its class body, and the class as reflection shows it.
  \<^verbatim>\<open>
  class Gauge (metaclass=Interface) :
      def __init__ (self) : pass
      temperature = property(...)    # getter, setter and deleter as in Thermometer
  \<close>
\<close>

definition Gauge_dct :: "string \<rightharpoonup> (string, nat) pyobj attribute" where
  "Gauge_dct = [''__init__'' \<mapsto> Declared (Callable (Inr ''(self)'') False),
                ''temperature'' \<mapsto> Declared temperature]"

definition Gauge :: "(string, nat) pyclass" where
  "Gauge = \<lparr>cls_id = 43, cls_bases = [0], cls_dir =
     [(''__init__'', Callable (Inr ''(self)'') False),
      (''temperature'', temperature)]\<rparr>"

text \<open>The namespace of an interface whose class body defines \<^verbatim>\<open>__init__ (self)\<close>.\<close>

definition Configured_dct :: "string \<rightharpoonup> (string, nat) pyobj attribute" where
  "Configured_dct = [''__init__'' \<mapsto> Declared (Callable (Inr ''(self)'') False),
                     ''run'' \<mapsto> Declared (Callable (Inr ''(self) -> None'') False)]"

section \<open>Facts about the comparisons and the loops\<close>

lemma descriptor_eq_refl: "descriptor_eq x x"
  by (cases x) simp_all


lemma descriptor_in_iff: "descriptor_in x ys \<longleftrightarrow> (\<exists>y\<in>set ys. descriptor_eq x y)"
  by (induction ys) auto

lemma descriptor_in_attrs_iff:
  "descriptor_in_attrs x objs \<longleftrightarrow> (\<exists>obj\<in>set objs. descriptor_eq_attr x obj)"
  by (induction objs) auto

text \<open>The lookup in \<^verbatim>\<open>default_attrs\<close> never succeeds for the signature of a callable,
  nor for a \<^verbatim>\<open>PropertySignature\<close>: the list holds attribute objects, not signatures.\<close>

lemma signature_not_in_attrs: "\<not> descriptor_in_attrs (InspectSignature a) objs"
  by (induction objs) auto

lemma PropertySignature_not_in_attrs: "\<not> descriptor_in_attrs (PropertySignature i p g s d) objs"
  by (induction objs) auto


lemma contains_loop_iff:
  "contains_loop ds self \<longleftrightarrow> (\<forall>d\<in>set ds. descriptor_in d (signatures self))"
  by (induction ds) auto

lemma implements_loop_iff:
  "implements_loop ds self interface \<longleftrightarrow>
     (\<forall>d\<in>set ds. descriptor_in d (signatures self)
                  \<or> descriptor_in_attrs d (default_attrs interface))"
  by (induction ds) auto

lemma get_non_dunder_attrs_bases [simp]:
  "get_non_dunder_attrs (c\<lparr>cls_bases := bs\<rparr>) = get_non_dunder_attrs c"
  by (simp add: get_non_dunder_attrs_def)


text \<open>\<^verbatim>\<open>implements\<close> on a signature, and on a type.\<close>

lemma implements_Sig:
  "implements S (Sig T) h =
     Inr (if cls_id (cls T) \<in> set (cls_bases (cls S))
          then (\<forall>d\<in>set (signatures T).
                  descriptor_in d (signatures S) \<or> descriptor_in_attrs d (default_attrs T))
          else (\<forall>d\<in>set (signatures T). descriptor_in d (signatures S)), h)"
  by (simp add: implements_def bases_m_def contains_def contains_loop_iff implements_loop_iff)

lemma implements_Type:
  "implements S (Type I) h =
     (case ClassSignature_init I h of Inl e \<Rightarrow> Inl e
      | Inr (T, h1) \<Rightarrow> implements S (Sig T) h1)"
  by (simp add: implements_def split: sum.splits)

lemma Interface_new_dict:
  "type_dict (Interface_new name bs dct) ''__init__'' =
     (case dct ''__init__'' of None \<Rightarrow> Some default_initializer | Some f \<Rightarrow> Some f)"
  by (auto simp: Interface_new_def type_new_def split: option.splits)

lemmas run_defs = subclasscheck_def ClassSignature_init_def get_non_dunder_attrs_def
  is_dunder_def implements_def bases_m_def contains_def super_subclasscheck_def
  universal_signature_def PropertySignature_init_def

subsection \<open>Members that are functions or plain values\<close>

text \<open>
  For a member that is no property, and whose signature the host can give when it is
  callable, \<^verbatim>\<open>universal_signature\<close> returns without allocating; the descriptor does not
  depend on the state.
\<close>

lemma universal_signature_plain:
  assumes "\<not> isinstance_property obj" and "callable obj \<longrightarrow> (\<exists>s. signature obj = Inr s)"
  shows "\<exists>d. \<forall>h. universal_signature obj h = Inr (d, h)"
  using assms by (cases obj) (auto simp: universal_signature_def)

lemma universal_signatures_plain:
  assumes "\<forall>obj\<in>set objs. \<not> isinstance_property obj
                          \<and> (callable obj \<longrightarrow> (\<exists>s. signature obj = Inr s))"
  shows "\<exists>ds. \<forall>h. universal_signatures objs h = Inr (ds, h)"
  using assms
proof (induction objs)
  case Nil
  then show ?case by simp
next
  case (Cons obj objs)
  from Cons.prems obtain d where d: "\<forall>h. universal_signature obj h = Inr (d, h)"
    using universal_signature_plain [of obj] by auto
  from Cons obtain ds where ds: "\<forall>h. universal_signatures objs h = Inr (ds, h)"
    by auto
  have "\<forall>h. universal_signatures (obj # objs) h = Inr (d # ds, h)"
    using d ds by simp
  then show ?case by blast
qed

text \<open>
  Every class whose ordinary members are such, and that has one declared parent, passes
  the check against itself.
\<close>

lemma subclasscheck_reflexive_plain:
  assumes "length (cls_bases T) = 1"
      and "\<forall>obj\<in>set (get_non_dunder_attrs T).
             \<not> isinstance_property obj \<and> (callable obj \<longrightarrow> (\<exists>s. signature obj = Inr s))"
  shows "subclasscheck T T h = Inr (True, h)"
proof -
  obtain ds where ds: "\<forall>h. universal_signatures (get_non_dunder_attrs T) h = Inr (ds, h)"
    using universal_signatures_plain [OF assms(2)] by blast
  define S where "S = \<lparr>cls = T, attrs = get_non_dunder_attrs T, signatures = ds,
    default_attrs = filter hasattr_defaultmethod (get_non_dunder_attrs T)\<rparr>"
  have init: "ClassSignature_init T k = Inr (S, k)" for k
    using ds by (simp add: ClassSignature_init_def S_def)
  have "\<forall>d\<in>set (signatures S). descriptor_in d (signatures S)"
    unfolding descriptor_in_iff using descriptor_eq_refl by blast
  then have "implements S (Sig S) h = Inr (True, h)"
    by (simp add: implements_Sig)
  then show ?thesis
    using assms(1) init by (simp add: subclasscheck_def implements_Type)
qed

subsection \<open>The assertions of the repository's tests\<close>

lemma tests_py:
  "subclasscheck TestInterface TestA 0 = Inr (True, 0)"
  "subclasscheck TestInterface TestB 0 = Inr (False, 0)"
  "subclasscheck TestInterface TestD 0 = Inr (True, 0)"
  "subclasscheck TestInterface TestE 0 = Inr (True, 0)"
  "instantiate call (Interface_new ''TestInterface'' [] TestInterface_dct) args = Inl TypeError"
  by (simp_all add: run_defs TestInterface_def TestA_def TestB_def TestD_def TestE_def
        instantiate_def Interface_new_dict TestInterface_dct_def)

section \<open>The claims\<close>

subsection \<open>C1: the subset rule for a candidate that declares the interface as parent\<close>

text \<open>
  C1 says: for a candidate that declares the interface as an immediate parent, the check
  returns true iff every interface member that is not tagged default has a matching entry in
  the candidate's signatures; default members are exempt, overridden or not.

  The code does not do that on \<^verbatim>\<open>Circle\<close> and \<^verbatim>\<open>Shape\<close>. \<^verbatim>\<open>Circle\<close> declares
  \<^verbatim>\<open>Shape\<close> as its parent; the only ordinary member of \<^verbatim>\<open>Shape\<close> without the default tag
  is \<^verbatim>\<open>area\<close>, and \<^verbatim>\<open>Circle\<close> has it with the same signature; the default member
  \<^verbatim>\<open>describe\<close> is overridden with another signature. The check returns \<^verbatim>\<open>False\<close>: the
  loop of \<^verbatim>\<open>implements\<close> looks the signature of \<^verbatim>\<open>describe\<close> up in
  \<^verbatim>\<open>interface.default_attrs\<close>, a list of function objects, where no signature is found
  (\<open>signature_not_in_attrs\<close>).
\<close>

theorem implements_rejects_overridden_default:
  "cls_id Shape \<in> set (cls_bases Circle)
   \<and> filter (\<lambda>(i, obj). \<not> is_dunder i \<and> \<not> hasattr_defaultmethod obj) (cls_dir Shape)
       = [(''area'', Callable (Inr ''(self) -> float'') False)]
   \<and> (''area'', Callable (Inr ''(self) -> float'') False) \<in> set (cls_dir Circle)
   \<and> subclasscheck Shape Circle h = Inr (False, h)"
  by (simp add: run_defs Shape_def Circle_def)

subsection \<open>C2: \<^verbatim>\<open>contains\<close>\<close>

text \<open>
  As stated, C2 fails: the only member of \<^verbatim>\<open>HasFoo\<close> is named \<^verbatim>\<open>foo\<close>, the only member
  of \<^verbatim>\<open>HasBar\<close> is named \<^verbatim>\<open>bar\<close>, and \<^verbatim>\<open>contains\<close> returns \<^verbatim>\<open>True\<close>, since both
  have the same signature.
\<close>

theorem contains_ignores_names_counterexample:
  "ClassSignature_init HasBar 0 = Inr (HasBar_sig, 0)
   \<and> ClassSignature_init HasFoo 0 = Inr (HasFoo_sig, 0)
   \<and> map fst (cls_dir HasFoo) = [''foo'']
   \<and> map fst (cls_dir HasBar) = [''bar'']
   \<and> contains HasBar_sig (Sig HasFoo_sig) 0 = Inr (True, 0)"
  by (simp add: run_defs HasBar_def HasFoo_def HasBar_sig_def HasFoo_sig_def)

text \<open>
  C2, amended: \<^verbatim>\<open>contains\<close> returns true iff every descriptor in the other signature's
  list is equal to some descriptor in this signature's list, whatever the names of the
  members they come from (a \<^verbatim>\<open>ClassSignature\<close> keeps no names); this signature may have
  more. When the argument is a type, its signature is built first, and an exception raised
  there is the outcome.
\<close>

theorem contains_iff_descriptors:
  "contains S t h =
     (case as_ClassSignature t h of Inl e \<Rightarrow> Inl e
      | Inr (T, h1) \<Rightarrow>
          Inr (\<forall>d\<in>set (signatures T). \<exists>d'\<in>set (signatures S). descriptor_eq d d', h1))"
  by (simp add: contains_def contains_loop_iff descriptor_in_iff split: sum.splits)

theorem contains_iff_descriptors_witness:
  "contains HasBar_sig (Type HasFoo) 0 = Inr (True, 0)"
  using contains_iff_descriptors [of HasBar_sig "Type HasFoo" 0]
  by (simp add: run_defs HasBar_def HasFoo_def HasBar_sig_def)

subsection \<open>C3: an interface with more than one declared parent\<close>




subsection \<open>C4: constructing an interface\<close>

text \<open>
  As stated, C4 fails: for an interface whose class body defines \<^verbatim>\<open>__init__\<close>, the
  metaclass keeps that initializer, and with an initializer that returns the construction
  succeeds.
\<close>

theorem own_initializer_counterexample:
  "instantiate (\<lambda>f args. Inr ()) (Interface_new ''Configured'' [] Configured_dct) () = Inr ()"
  by (simp add: instantiate_def Interface_new_dict Configured_dct_def)

text \<open>
  C4, amended: constructing a class made by the metaclass fails with the construction
  error (\<^verbatim>\<open>TypeError\<close>) when its class body defines no \<^verbatim>\<open>__init__\<close>; when the body
  defines one, that initializer is what runs, and the construction fails only if it does.
\<close>

theorem instantiate_Interface_new:
  "instantiate call (Interface_new name bs dct) args =
     (case dct ''__init__'' of
        None \<Rightarrow> Inl TypeError
      | Some default_initializer \<Rightarrow> Inl TypeError
      | Some (Declared f) \<Rightarrow> call (Some f) args)"
  by (simp add: instantiate_def Interface_new_dict split: option.splits attribute.splits)

theorem instantiate_Interface_new_witness:
  "instantiate (\<lambda>f args. Inr ()) (Interface_new ''TestInterface'' [] TestInterface_dct) ()
     = Inl TypeError"
  using instantiate_Interface_new
    [of "\<lambda>f args. Inr ()" "''TestInterface''" "[]" TestInterface_dct "()"]
  by (simp add: TestInterface_dct_def)

subsection \<open>C5: equality of property descriptors\<close>

text \<open>
  C5 says: two property descriptors are equal iff their getter, setter and deleter
  signatures are equal, so that a candidate's own property can match the interface's.

  The code does not do that: \<^verbatim>\<open>PropertySignature\<close> defines no \<^verbatim>\<open>__eq__\<close>, so two of
  them are equal only when they are the same object. Extracting the descriptor of the
  property \<^verbatim>\<open>temperature\<close> twice gives two objects with the same three signatures that are
  not equal, and \<^verbatim>\<open>Probe\<close>, which has that very property, fails the check against
  \<^verbatim>\<open>Thermometer\<close>.
\<close>

theorem property_descriptors_compare_by_identity:
  "universal_signature temperature 0 =
     Inr (PropertySignature 0 temperature ''(self) -> float'' ''(self, value: float) -> None''
            ''(self) -> None'', 1)
   \<and> universal_signature temperature 1 =
     Inr (PropertySignature 1 temperature ''(self) -> float'' ''(self, value: float) -> None''
            ''(self) -> None'', 2)
   \<and> \<not> descriptor_eq
         (PropertySignature 0 temperature ''(self) -> float'' ''(self, value: float) -> None''
            ''(self) -> None'')
         (PropertySignature 1 temperature ''(self) -> float'' ''(self, value: float) -> None''
            ''(self) -> None'')
   \<and> subclasscheck Thermometer Probe 0 = Inr (False, 2)"
  by (simp add: run_defs temperature_def Thermometer_def Probe_def)

subsection \<open>C6: extraction on a property without setter or deleter\<close>

text \<open>
  C6 says: extraction never throws; a placeholder stands for a missing setter or deleter.

  The code does not do that: \<^verbatim>\<open>PropertySignature.__init__\<close> calls
  \<^verbatim>\<open>signature(target.fset)\<close> and \<^verbatim>\<open>signature(target.fdel)\<close> whether or not there is
  a setter or a deleter, and \<^verbatim>\<open>inspect.signature(None)\<close> raises \<^verbatim>\<open>TypeError\<close>. So
  extraction raises for every property with a function as getter and no setter, or with
  getter and setter and no deleter; so does building the signature of the class
  \<^verbatim>\<open>ReadOnly\<close>, and so does the conformance check on it.
\<close>

theorem read_only_property_raises:
  "universal_signature (Property (Callable (Inr g) t) PyNone deleter) h = Inl TypeError
   \<and> universal_signature (Property (Callable (Inr g) t) (Callable (Inr s) t') PyNone) h
       = Inl TypeError
   \<and> ClassSignature_init ReadOnly h = Inl TypeError
   \<and> subclasscheck Thermometer ReadOnly h = Inl TypeError"
  by (simp add: run_defs ReadOnly_def Thermometer_def)

subsection \<open>C7: a candidate that does not declare the interface as parent\<close>




subsection \<open>C8: a type against itself\<close>

text \<open>
  C8 says: every type that is not an abstract interface with denied construction conforms
  to itself.

  The code does not do that for such a type with a property member. Two types in the
  claim's scope:
  \<^item> \<^verbatim>\<open>Gauge\<close>, an interface whose class body defines \<^verbatim>\<open>__init__\<close>: the metaclass keeps
    that initializer and \<^verbatim>\<open>Gauge()\<close> constructs; \<^verbatim>\<open>issubclass(Gauge, Gauge)\<close> returns
    \<^verbatim>\<open>False\<close>.
  \<^item> \<^verbatim>\<open>Probe\<close>, a plain class, no interface at all:
    \<^verbatim>\<open>ClassSignature(Probe).implements(Probe)\<close> returns \<^verbatim>\<open>False\<close>.

  In both the signature of the type is built twice, and the two \<^verbatim>\<open>PropertySignature\<close>
  objects made for \<^verbatim>\<open>temperature\<close> are different objects, which are equal to nothing but
  themselves. (For types without such members the check does return \<^verbatim>\<open>True\<close>:
  \<open>subclasscheck_reflexive_plain\<close>.)
\<close>

theorem class_with_property_not_reflexive:
  "instantiate (\<lambda>f args. Inr ()) (Interface_new ''Gauge'' [] Gauge_dct) () = Inr ()
   \<and> subclasscheck Gauge Gauge h = Inr (False, Suc (Suc h))
   \<and> ClassSignature_init Probe h = Inr (Probe_sig h, Suc h)
   \<and> implements (Probe_sig h) (Type Probe) (Suc h) = Inr (False, Suc (Suc h))"
  by (simp add: run_defs temperature_def Gauge_def Gauge_dct_def Probe_def Probe_sig_def
        instantiate_def Interface_new_dict)

subsection \<open>C9: extra members\<close>



subsection \<open>C10: the default initializer of every class made by the metaclass\<close>

text \<open>
  C10: every class created through the metaclass whose class body defines no
  \<^verbatim>\<open>__init__\<close>, a concrete subclass of an interface included, has the raising default
  initializer in its namespace, and instantiating it raises the construction error
  (\<^verbatim>\<open>TypeError\<close>).
\<close>

theorem missing_init_gets_default_initializer:
  assumes "''__init__'' \<notin> dom dct"
  shows "type_dict (Interface_new name bs dct) ''__init__'' = Some default_initializer
         \<and> instantiate call (Interface_new name bs dct) args = Inl TypeError"
  using assms by (auto simp: instantiate_def Interface_new_dict split: option.splits)

text \<open>The class \<^verbatim>\<open>TestA\<close> of the tests conforms to \<^verbatim>\<open>TestInterface\<close> and cannot be
  instantiated.\<close>

theorem missing_init_gets_default_initializer_witness:
  "''__init__'' \<notin> dom TestA_dct
   \<and> type_dict (Interface_new ''TestA'' [1] TestA_dct) ''__init__'' = Some default_initializer
   \<and> instantiate (\<lambda>f args. Inr ()) (Interface_new ''TestA'' [1] TestA_dct) () = Inl TypeError
   \<and> subclasscheck TestInterface TestA 0 = Inr (True, 0)"
proof -
  have d: "''__init__'' \<notin> dom TestA_dct" by (simp add: TestA_dct_def)
  have c: "subclasscheck TestInterface TestA 0 = Inr (True, 0)"
    by (simp add: run_defs TestInterface_def TestA_def)
  show ?thesis
    using missing_init_gets_default_initializer
      [OF d, of "''TestA''" "[1]" "\<lambda>f args. Inr ()" "()"] d c
    by simp
qed

end
